theory Spec2Isabelle
  imports Main "HOL-Library.AList"
begin

section \<open>Values, errors and the entity records\<close>

text \<open>
  Python exceptions are values. Every constructor stands for a subclass of Python's
  \<open>Exception\<close> class, which is what the \<open>except Exception\<close> handlers of the managers
  catch. \<open>HostError\<close> is an exception raised by a callback or by the host platform.
\<close>

datatype error = AttributeError | TypeError | KeyError | RuntimeError | HostError string

text \<open>
  A computation that mutates the object it works on and may raise: \<open>Inr s\<close> is a normal
  return with the object in state \<open>s\<close>; \<open>Inl (e, s)\<close> is the exception \<open>e\<close>, raised when
  the object was in state \<open>s\<close> (the mutations made before a raise are not undone).
\<close>

type_synonym 's outcome = "(error \<times> 's) + 's"

text \<open>The state an outcome leaves behind, whether it returned or raised.\<close>

fun final :: "'s outcome \<Rightarrow> 's" where
  "final (Inl (e, s)) = s"
| "final (Inr s) = s"

fun raised :: "'s outcome \<Rightarrow> error option" where
  "raised (Inl (e, s)) = Some e"
| "raised (Inr s) = None"

text \<open>Sequencing of fallible pure computations (a raise skips the rest).\<close>

fun bind :: "error + 'a \<Rightarrow> ('a \<Rightarrow> error + 'b) \<Rightarrow> error + 'b" where
  "bind (Inl e) f = Inl e"
| "bind (Inr x) f = f x"

text \<open>
  The values of an entity state and of the attribute dictionaries: \<open>set_entity\<close> takes
  \<open>state: str | bool\<close>. On these two types Python's \<open>==\<close> is structural equality.
  A \<open>dict\<close> with string keys is a map; Python compares dictionaries by content.
\<close>

datatype py_value = PyStr string | PyBool bool

type_synonym py_dict = "string \<rightharpoonup> py_value"

fun str :: "py_value \<Rightarrow> string" where
  "str (PyStr s) = s"
| "str (PyBool b) = (if b then ''True'' else ''False'')"

text \<open>
  The host's \<open>EntityDescription\<close> dataclass, compared field by field by \<open>!=\<close>; of its
  fields the managers read \<open>key\<close> and \<open>name\<close>.
\<close>

record entity_description =
  key :: string
  name :: string

text \<open>
  Modelled from the spec: the enumeration \<open>EntityStatus\<close> (core/helpers/enums.py) and the
  class \<open>EntityData\<close> (core/models/entity_data.py) are imported by the entity manager but
  are not among the sources. The spec names the four statuses and describes the records as
  kept under their unique identifier, the key of their entity description; the fields are
  the ones \<open>entity_manager.py\<close> reads and writes. The constructor stores its two arguments
  and leaves the other fields at empty defaults; \<open>id\<close> and \<open>name\<close> are the properties
  \<open>entity.id\<close> and \<open>entity.name\<close>, read off the description.
\<close>

datatype EntityStatus = CREATED | UPDATED | READY | DELETED

record EntityData =
  entry_id :: string
  entity_description :: entity_description
  state :: "py_value option"
  attributes :: py_dict
  details :: "py_dict option"
  device_name :: "string option"
  status :: EntityStatus
  disabled :: bool
  domain :: "string option"

definition EntityData_init :: "string \<Rightarrow> entity_description \<Rightarrow> EntityData" where
  "EntityData_init entry_id' entity_description' =
     \<lparr>entry_id = entry_id', entity_description = entity_description', state = None,
      attributes = Map.empty, details = Some Map.empty, device_name = None,
      status = CREATED, disabled = False, domain = None\<rparr>"

definition data_id :: "EntityData \<Rightarrow> string" where
  "data_id entity = key (entity_description entity)"

definition data_name :: "EntityData \<Rightarrow> string" where
  "data_name entity = name (entity_description entity)"

section \<open>The host platform as seen by the entity manager\<close>

text \<open>
  The entity registry of the host: \<open>async_get_entity_id (domain, platform, unique_id)\<close>
  looks an entity id up (the platform is always this integration's \<open>DOMAIN\<close>),
  \<open>async_get\<close> returns the registry entry of an entity id or \<open>None\<close>,
  \<open>async_update_entity\<close> sets \<open>disabled_by\<close> and \<open>async_remove\<close> drops the entry.
\<close>

datatype RegistryEntryDisabler = INTEGRATION | USER

record registry_entry =
  disabled_by :: "RegistryEntryDisabler option"

record EntityRegistry =
  entity_ids :: "(string \<times> string) \<rightharpoonup> string"
  registry_entities :: "string \<rightharpoonup> registry_entry"

definition async_get_entity_id :: "EntityRegistry \<Rightarrow> string option \<Rightarrow> string \<Rightarrow> string option" where
  "async_get_entity_id reg domain' unique_id =
     (case domain' of None \<Rightarrow> None | Some d \<Rightarrow> entity_ids reg (d, unique_id))"

definition async_get :: "EntityRegistry \<Rightarrow> string option \<Rightarrow> registry_entry option" where
  "async_get reg entity_id =
     (case entity_id of None \<Rightarrow> None | Some i \<Rightarrow> registry_entities reg i)"

definition entry_disabled :: "registry_entry \<Rightarrow> bool" where
  "entry_disabled item = (disabled_by item \<noteq> None)"

definition async_update_entity :: "string \<Rightarrow> RegistryEntryDisabler \<Rightarrow> EntityRegistry \<Rightarrow> EntityRegistry" where
  "async_update_entity entity_id by reg =
     (case registry_entities reg entity_id of
        None \<Rightarrow> reg
      | Some item \<Rightarrow>
          reg\<lparr>registry_entities := (registry_entities reg)(entity_id \<mapsto> item\<lparr>disabled_by := Some by\<rparr>)\<rparr>)"

definition async_remove :: "string \<Rightarrow> EntityRegistry \<Rightarrow> EntityRegistry" where
  "async_remove entity_id reg =
     reg\<lparr>registry_entities := (registry_entities reg)(entity_id := None),
         entity_ids := (\<lambda>k. if entity_ids reg k = Some entity_id then None else entity_ids reg k)\<rparr>"

text \<open>
  A component is what a domain's initializer builds from an entity record; the manager
  sets its \<open>entity_id\<close> and reads its \<open>name\<close>. A domain registers its initializer and the
  host's \<open>async_add_devices\<close> callback; both are foreign code and may raise.
\<close>

record component =
  component_name :: string
  component_unique_id :: string
  component_entity_id :: "string option"

record DomainData =
  domain_name :: string
  initializer :: "EntityData \<Rightarrow> error + component"
  async_add_devices :: "component list \<Rightarrow> error option"

text \<open>The records written by \<open>_LOGGER\<close>, one constructor for each logging statement.\<close>

datatype msg =
    State_msg "py_value option" py_value
  | Attributes_msg "string \<rightharpoonup> string" "string \<rightharpoonup> string"
  | Device_name_msg "string option" string
  | Description_msg entity_description entity_description
  | Details_msg "string \<rightharpoonup> string" "string \<rightharpoonup> string"

datatype log_record =
    Debug_compare string "string option" "msg list"
  | Debug_ignored string
  | Info_entity string "string option" EntityStatus "py_value option"
  | Info_disabling string
  | Debug_restored string string
  | Info_components_created nat string
  | Error_failed_to_add_component error
  | Info_removed "string option" string
  | Info_components_deleted nat
  | Debug_starting_to_update
  | Error_failed_to_update error

section \<open>The entity manager\<close>

text \<open>
  \<open>entities\<close> and \<open>domain_component_manager\<close> are Python dictionaries that the manager
  iterates over, so they are association lists in insertion order: \<open>map_of\<close> is
  \<open>dict.get\<close>, \<open>AList.update\<close> is item assignment (an existing key keeps its place, a new
  one goes to the end) and \<open>AList.delete\<close> is \<open>del\<close>. \<open>init_calls\<close> and \<open>added_devices\<close>
  record the calls made to the initializers and to \<open>async_add_devices\<close>; \<open>hass_states\<close>
  gives the \<open>restored\<close> attribute of each state the host holds (\<open>hass.states\<close>).
\<close>

record EntityManager =
  entities :: "(string \<times> EntityData) list"
  domain_component_manager :: "(string \<times> DomainData) list"
  entity_registry :: EntityRegistry
  hass_states :: "string \<rightharpoonup> bool"
  init_calls :: "string list"
  added_devices :: "(string \<times> component list) list"
  logs :: "log_record list"

definition get_attributes_json :: "py_dict option \<Rightarrow> error + (string \<rightharpoonup> string)" where
  \<comment> \<open>\<open>for key in attributes\<close> raises TypeError on \<open>None\<close>; the result is the dictionary
      \<open>new_attributes\<close> that \<open>json.dumps\<close> serialises.\<close>
  "get_attributes_json attributes' =
     (case attributes' of
        None \<Rightarrow> Inl TypeError
      | Some d \<Rightarrow> Inr (\<lambda>k. map_option str (d k)))"

definition compare_data ::
  "EntityData \<Rightarrow> py_value \<Rightarrow> py_dict \<Rightarrow> string \<Rightarrow> entity_description option \<Rightarrow> py_dict option
     \<Rightarrow> error + (bool \<times> log_record list)" where
  "compare_data entity state' attributes' device_name' entity_description' details' =
     bind (Inr (if state entity \<noteq> Some state' then [State_msg (state entity) state'] else []))
     (\<lambda>msgs. bind
        (if attributes entity \<noteq> attributes' then
           bind (get_attributes_json (Some (attributes entity))) (\<lambda>from_attributes.
           bind (get_attributes_json (Some attributes')) (\<lambda>to_attributes.
           Inr (msgs @ [Attributes_msg from_attributes to_attributes])))
         else Inr msgs)
     (\<lambda>msgs. bind
        (Inr (if device_name entity \<noteq> Some device_name'
              then msgs @ [Device_name_msg (device_name entity) device_name'] else msgs))
     (\<lambda>msgs. bind
        (Inr (case entity_description' of
                None \<Rightarrow> msgs
              | Some d \<Rightarrow>
                  if entity_description entity \<noteq> d
                  then msgs @ [Description_msg (entity_description entity) d] else msgs))
     (\<lambda>msgs. bind
        (case details' of
           None \<Rightarrow> Inr msgs
         | Some d \<Rightarrow>
             if details entity \<noteq> Some d then
               bind (get_attributes_json (details entity)) (\<lambda>from_details.
               bind (get_attributes_json (Some d)) (\<lambda>to_details.
               Inr (msgs @ [Details_msg from_details to_details])))
             else Inr msgs)
     (\<lambda>msgs.
        let modified = (length msgs > 0) in
        Inr (modified,
             if modified then [Debug_compare (data_name entity) (domain entity) msgs] else []))))))"

definition get :: "EntityManager \<Rightarrow> string \<Rightarrow> EntityData option" where
  "get m unique_id = map_of (entities m) unique_id"

definition flagged :: "bool list option \<Rightarrow> bool" where
  \<comment> \<open>\<open>destructors is not None and True in destructors\<close>\<close>
  "flagged destructors = (case destructors of None \<Rightarrow> False | Some ds \<Rightarrow> True \<in> set ds)"

text \<open>
  A record found in the mapping is the stored object itself, so the assignments to its
  fields change the record in the mapping at once, also on the path that then sets the
  local name \<open>entity\<close> to \<open>None\<close>; a record built by the call is in the mapping only
  once it is stored at the end.
\<close>

definition set_entity ::
  "string \<Rightarrow> string \<Rightarrow> py_value \<Rightarrow> py_dict \<Rightarrow> string \<Rightarrow> entity_description option
     \<Rightarrow> py_dict option \<Rightarrow> bool list option \<Rightarrow> EntityManager \<Rightarrow> error + EntityManager" where
  "set_entity domain' entry_id' state' attributes' device_name' entity_description' details'
       destructors m =
     (case entity_description' of
        None \<Rightarrow> Inl AttributeError
      | Some d \<Rightarrow>
          bind
            (case get m (key d) of
               None \<Rightarrow>
                 (let entity = (EntityData_init entry_id' d)
                                 \<lparr>status := CREATED, domain := Some domain'\<rparr> in
                  bind (compare_data entity state' attributes' device_name' None None)
                    (\<lambda>(modified, lg). Inr (False, entity, lg)))
             | Some entity \<Rightarrow>
                 bind (compare_data entity state' attributes' device_name' (Some d) details')
                   (\<lambda>(was_modified, lg).
                      Inr (True, if was_modified then entity\<lparr>status := UPDATED\<rparr> else entity, lg)))
          (\<lambda>(stored, entity, lg).
             let entity = (if status entity \<in> {CREATED, UPDATED}
                           then entity\<lparr>state := Some state', attributes := attributes',
                                       device_name := Some device_name', details := details'\<rparr>
                           else entity);
                 m = (if stored then m\<lparr>entities := AList.update (key d) entity (entities m)\<rparr>
                      else m);
                 entity = (if flagged destructors
                           then (if status entity = CREATED then None
                                 else Some (entity\<lparr>status := DELETED\<rparr>))
                           else Some entity)
             in Inr (case entity of
                       None \<Rightarrow> m\<lparr>logs := logs m @ lg @ [Debug_ignored (name d)]\<rparr>
                     | Some entity \<Rightarrow>
                         m\<lparr>entities := AList.update (key d) entity (entities m),
                           logs := logs m @ lg @
                             (if status entity \<noteq> READY
                              then [Info_entity (data_name entity) (domain entity)
                                      (status entity) (state entity)]
                              else [])\<rparr>)))"

subsection \<open>The add phase\<close>

definition handle_disabled_entity ::
  "string \<Rightarrow> string option \<Rightarrow> EntityData \<Rightarrow> EntityManager \<Rightarrow> EntityData \<times> EntityManager" where
  \<comment> \<open>\<open>entity\<close> is the object stored under \<open>unique_id\<close>: assigning \<open>entity.disabled\<close>
      changes the stored record.\<close>
  "handle_disabled_entity unique_id entity_id entity m =
     (case entity_id of
        None \<Rightarrow> (entity, m)
      | Some i \<Rightarrow>
          (case async_get (entity_registry m) (Some i) of
             None \<Rightarrow> (entity, m)
           | Some entity_item \<Rightarrow>
               if disabled entity then
                 (entity,
                  m\<lparr>logs := logs m @ [Info_disabling unique_id],
                    entity_registry := async_update_entity i INTEGRATION (entity_registry m)\<rparr>)
               else
                 (let entity = entity\<lparr>disabled := entry_disabled entity_item\<rparr> in
                  (entity, m\<lparr>entities := AList.update unique_id entity (entities m)\<rparr>))))"

definition handle_restored_entity ::
  "string option \<Rightarrow> component \<Rightarrow> EntityManager \<Rightarrow> component \<times> EntityManager" where
  "handle_restored_entity entity_id component' m =
     (case entity_id of
        None \<Rightarrow> (component', m)
      | Some i \<Rightarrow>
          (let component' = component'\<lparr>component_entity_id := Some i\<rparr> in
           case hass_states m i of
             None \<Rightarrow> (component', m)
           | Some is_restored \<Rightarrow>
               if is_restored
               then (component', m\<lparr>logs := logs m @ [Debug_restored i (component_name component')]\<rparr>)
               else (component', m)))"

type_synonym components = "(string \<times> component list) list"

definition add_component ::
  "string \<Rightarrow> components \<Rightarrow> EntityManager \<Rightarrow> (error \<times> EntityManager) + (components \<times> EntityManager)" where
  \<comment> \<open>The body of the first loop of \<open>_async_add_components\<close>, for one \<open>unique_id\<close>.
      \<open>entity.status\<close> on a missing record and \<open>domain_manager.initializer\<close> on a domain
      that is not registered raise AttributeError.\<close>
  "add_component unique_id components' m =
     (case get m unique_id of
        None \<Rightarrow> Inl (AttributeError, m)
      | Some entity \<Rightarrow>
          if status entity = CREATED then
            (let entity_id = async_get_entity_id (entity_registry m) (domain entity) unique_id;
                 (entity, m) = handle_disabled_entity unique_id entity_id entity m
             in case domain entity of
                  None \<Rightarrow> Inl (AttributeError, m)
                | Some domain' \<Rightarrow>
                    (case map_of (domain_component_manager m) domain' of
                       None \<Rightarrow> Inl (AttributeError, m)
                     | Some domain_manager \<Rightarrow>
                         (let m = m\<lparr>init_calls := init_calls m @ [unique_id]\<rparr> in
                          case initializer domain_manager entity of
                            Inl ex \<Rightarrow> Inl (ex, m)
                          | Inr component' \<Rightarrow>
                              (let (component', m) = handle_restored_entity entity_id component' m;
                                   domain_components =
                                     (case map_of components' domain' of None \<Rightarrow> [] | Some cs \<Rightarrow> cs)
                                     @ [component'];
                                   components' = AList.update domain' domain_components components';
                                   entity = entity\<lparr>status := READY\<rparr>
                               in Inr (components',
                                       m\<lparr>entities := AList.update unique_id entity (entities m)\<rparr>)))))
          else Inr (components', m))"

text \<open>
  \<open>for unique_id in self.entities\<close>: the dictionary iterator remembers the size of the
  dictionary when the loop starts (\<open>used\<close>) and every step, the last one that ends the
  loop included, first raises RuntimeError ("dictionary changed size during iteration") when
  the size is no longer that. As long as the size is the same no key was added or removed
  here, so the keys still to come are the rest of the keys the loop started with.
\<close>

fun add_loop ::
  "nat \<Rightarrow> string list \<Rightarrow> components \<Rightarrow> EntityManager
     \<Rightarrow> (error \<times> EntityManager) + (components \<times> EntityManager)" where
  "add_loop used [] components' m =
     (if length (entities m) \<noteq> used then Inl (RuntimeError, m) else Inr (components', m))"
| "add_loop used (unique_id # rest) components' m =
     (if length (entities m) \<noteq> used then Inl (RuntimeError, m)
      else case add_component unique_id components' m of
             Inl x \<Rightarrow> Inl x
           | Inr (components', m) \<Rightarrow> add_loop used rest components' m)"

fun add_devices_loop :: "string list \<Rightarrow> components \<Rightarrow> EntityManager \<Rightarrow> EntityManager outcome" where
  \<comment> \<open>The second loop, over the registered domains; nothing in it changes that dictionary.\<close>
  "add_devices_loop [] components' m = Inr m"
| "add_devices_loop (domain' # rest) components' m =
     (let domain_manager = map_of (domain_component_manager m) domain';
          domain_components = (case map_of components' domain' of None \<Rightarrow> [] | Some cs \<Rightarrow> cs);
          components_count = length domain_components
      in if components_count > 0 then
           (case domain_manager of
              None \<Rightarrow> Inl (AttributeError, m)
            | Some domain_manager \<Rightarrow>
                (case async_add_devices domain_manager domain_components of
                   Some ex \<Rightarrow> Inl (ex, m)
                 | None \<Rightarrow>
                     add_devices_loop rest components'
                       (m\<lparr>added_devices := added_devices m @ [(domain', domain_components)],
                          logs := logs m @ [Info_components_created components_count domain']\<rparr>)))
         else add_devices_loop rest components' m)"

definition add_components_try :: "EntityManager \<Rightarrow> EntityManager outcome" where
  \<comment> \<open>The \<open>try\<close> block of \<open>_async_add_components\<close>.\<close>
  "add_components_try m =
     (case add_loop (length (entities m)) (map fst (entities m)) [] m of
        Inl x \<Rightarrow> Inl x
      | Inr (components', m) \<Rightarrow>
          add_devices_loop (map fst (domain_component_manager m)) components' m)"

definition async_add_components :: "EntityManager \<Rightarrow> EntityManager outcome" where
  "async_add_components m =
     (case add_components_try m of
        Inl (ex, m) \<Rightarrow> Inr (m\<lparr>logs := logs m @ [Error_failed_to_add_component ex]\<rparr>)
      | Inr m \<Rightarrow> Inr m)"

subsection \<open>The delete phase\<close>

definition delete_component ::
  "string \<Rightarrow> nat \<Rightarrow> EntityManager \<Rightarrow> (error \<times> EntityManager) + (nat \<times> EntityManager)" where
  \<comment> \<open>The body of the loop of \<open>_async_delete_components\<close>; \<open>del\<close> raises KeyError on a
      key that is not in the dictionary.\<close>
  "delete_component unique_id deleted m =
     (case get m unique_id of
        None \<Rightarrow> Inl (AttributeError, m)
      | Some entity \<Rightarrow>
          if status entity = DELETED then
            (let entity_id = async_get_entity_id (entity_registry m) (domain entity) unique_id;
                 m = (case entity_id of
                        None \<Rightarrow> m
                      | Some i \<Rightarrow>
                          (case async_get (entity_registry m) (Some i) of
                             None \<Rightarrow> m
                           | Some entity_item \<Rightarrow>
                               m\<lparr>logs := logs m @ [Info_removed entity_id (data_name entity)],
                                 entity_registry := async_remove i (entity_registry m)\<rparr>))
             in if data_id entity \<in> set (map fst (entities m))
                then Inr (deleted + 1,
                          m\<lparr>entities := AList.delete (data_id entity) (entities m)\<rparr>)
                else Inl (KeyError, m))
          else Inr (deleted, m))"

fun delete_loop ::
  "nat \<Rightarrow> string list \<Rightarrow> nat \<Rightarrow> EntityManager \<Rightarrow> (error \<times> EntityManager) + (nat \<times> EntityManager)" where
  "delete_loop used [] deleted m =
     (if length (entities m) \<noteq> used then Inl (RuntimeError, m) else Inr (deleted, m))"
| "delete_loop used (unique_id # rest) deleted m =
     (if length (entities m) \<noteq> used then Inl (RuntimeError, m)
      else case delete_component unique_id deleted m of
             Inl x \<Rightarrow> Inl x
           | Inr (deleted, m) \<Rightarrow> delete_loop used rest deleted m)"

definition async_delete_components :: "EntityManager \<Rightarrow> EntityManager outcome" where
  "async_delete_components m =
     (case delete_loop (length (entities m)) (map fst (entities m)) 0 m of
        Inl x \<Rightarrow> Inl x
      | Inr (deleted, m) \<Rightarrow>
          Inr (if deleted > 0 then m\<lparr>logs := logs m @ [Info_components_deleted deleted]\<rparr> else m))"

subsection \<open>The reconciliation pass\<close>

definition update_try :: "EntityManager \<Rightarrow> EntityManager outcome" where
  \<comment> \<open>The \<open>try\<close> block of \<open>_async_update\<close>.\<close>
  "update_try m =
     (case async_add_components m of
        Inl x \<Rightarrow> Inl x
      | Inr m \<Rightarrow> async_delete_components m)"

definition em_async_update :: "EntityManager \<Rightarrow> EntityManager outcome" where
  \<comment> \<open>\<open>EntityManager._async_update\<close>\<close>
  "em_async_update m =
     (case update_try (m\<lparr>logs := logs m @ [Debug_starting_to_update]\<rparr>) of
        Inl (ex, m) \<Rightarrow> Inr (m\<lparr>logs := logs m @ [Error_failed_to_update ex]\<rparr>)
      | Inr m \<Rightarrow> Inr m)"

section \<open>The home assistant manager\<close>

text \<open>
  Times and intervals are counted in seconds. The host's \<open>ConfigEntry\<close> is read for
  its \<open>as_dict()\<close> only, in two log messages.
\<close>

type_synonym timedelta = int

type_synonym datetime = int

record ConfigEntry =
  config_entry_id :: string
  title :: string

text \<open>
  What the manager hands to the host: the callbacks it registers with
  \<open>async_track_time_interval\<close>, the coroutines it gives to \<open>hass.async_create_task\<close>, and
  the methods a component overrides. In this class the overridable methods have the body
  \<open>pass\<close>; \<open>hook_calls\<close> records that they were called.
\<close>

datatype callback = Update_entities | Send_heartbeat

datatype remove_listener = Remove_listener callback timedelta

datatype task = Entity_manager_async_update | Dispatch_all

datatype hook = Async_initialize_data_providers | Async_update_data_providers
  | Load_devices | Load_entities

datatype ha_log_record =
    Info_config_entry_load ConfigEntry
  | Info_config_entry_change ConfigEntry
  | Info_not_initialized datetime
  | Debug_skip_updating datetime
  | Debug_updating datetime
  | Error_failed_to_async_update error

record 'a HomeAssistantManager =
  is_initialized :: bool
  is_updating :: bool
  scan_interval :: timedelta
  heartbeat_interval :: "timedelta option"
  entry :: "ConfigEntry option"
  entity_manager :: EntityManager
  async_track_time_handlers :: "remove_listener list"
  last_heartbeat :: "datetime option"
  update_lock :: bool
  actions :: "string \<rightharpoonup> 'a"
  time_listeners :: "(callback \<times> timedelta) list"
  tasks :: "task list"
  hook_calls :: "hook list"
  ha_logs :: "ha_log_record list"

definition EntityManager_init :: "EntityRegistry \<Rightarrow> (string \<rightharpoonup> bool) \<Rightarrow> EntityManager" where
  "EntityManager_init reg sts =
     \<lparr>entities = [], domain_component_manager = [], entity_registry = reg, hass_states = sts,
      init_calls = [], added_devices = [], logs = []\<rparr>"

definition HomeAssistantManager_init ::
  "EntityRegistry \<Rightarrow> (string \<rightharpoonup> bool) \<Rightarrow> timedelta \<Rightarrow> timedelta option \<Rightarrow> 'a HomeAssistantManager" where
  "HomeAssistantManager_init reg sts scan_interval' heartbeat_interval' =
     \<lparr>is_initialized = False, is_updating = False, scan_interval = scan_interval',
      heartbeat_interval = heartbeat_interval', entry = None,
      entity_manager = EntityManager_init reg sts, async_track_time_handlers = [],
      last_heartbeat = None, update_lock = False, actions = Map.empty,
      time_listeners = [], tasks = [], hook_calls = [], ha_logs = []\<rparr>"

definition async_track_time_interval ::
  "callback \<Rightarrow> timedelta \<Rightarrow> 'a HomeAssistantManager \<Rightarrow> remove_listener \<times> 'a HomeAssistantManager" where
  \<comment> \<open>The host adds the listener and returns the callable that removes it.\<close>
  "async_track_time_interval action interval h =
     (Remove_listener action interval,
      h\<lparr>time_listeners := time_listeners h @ [(action, interval)]\<rparr>)"

definition call_hook :: "hook \<Rightarrow> 'a HomeAssistantManager \<Rightarrow> 'a HomeAssistantManager outcome" where
  "call_hook k h = Inr (h\<lparr>hook_calls := hook_calls h @ [k]\<rparr>)"

definition async_update_entry ::
  "ConfigEntry option \<Rightarrow> 'a HomeAssistantManager \<Rightarrow> 'a HomeAssistantManager outcome" where
  \<comment> \<open>Without an entry the log message reads \<open>self._entry.as_dict()\<close>, an AttributeError
      when no entry was set.\<close>
  "async_update_entry entry' h =
     (case (case entry' of
              Some e \<Rightarrow>
                Inr (h\<lparr>entry := Some e, ha_logs := ha_logs h @ [Info_config_entry_load e]\<rparr>)
            | None \<Rightarrow>
                (let (remove_async_track_time, h) =
                       async_track_time_interval Update_entities (scan_interval h) h;
                     h = h\<lparr>async_track_time_handlers :=
                             async_track_time_handlers h @ [remove_async_track_time]\<rparr>;
                     h = (case heartbeat_interval h of
                            None \<Rightarrow> h
                          | Some heartbeat \<Rightarrow>
                              (let (remove_async_heartbeat_track_time, h) =
                                     async_track_time_interval Send_heartbeat heartbeat h
                               in h\<lparr>async_track_time_handlers :=
                                      async_track_time_handlers h
                                      @ [remove_async_heartbeat_track_time]\<rparr>))
                 in case entry h of
                      None \<Rightarrow> Inl (AttributeError, h)
                    | Some e \<Rightarrow>
                        Inr (h\<lparr>ha_logs := ha_logs h @ [Info_config_entry_change e]\<rparr>))) of
        Inl x \<Rightarrow> Inl x
      | Inr h \<Rightarrow> call_hook Async_initialize_data_providers h)"

definition em_update :: "'a HomeAssistantManager \<Rightarrow> 'a HomeAssistantManager" where
  \<comment> \<open>\<open>EntityManager.update\<close>: the reconciliation pass is handed to the host as a task.\<close>
  "em_update h = h\<lparr>tasks := tasks h @ [Entity_manager_async_update]\<rparr>"

definition update :: "'a HomeAssistantManager \<Rightarrow> 'a HomeAssistantManager outcome" where
  "update h =
     (if update_lock h then Inr h
      else
        (let h = h\<lparr>update_lock := True\<rparr> in
         case call_hook Load_devices h of
           Inl x \<Rightarrow> Inl x
         | Inr h \<Rightarrow>
             (case call_hook Load_entities h of
                Inl x \<Rightarrow> Inl x
              | Inr h \<Rightarrow>
                  (let h = em_update h;
                       h = h\<lparr>tasks := tasks h @ [Dispatch_all]\<rparr>
                   in Inr (h\<lparr>update_lock := False\<rparr>)))))"

definition async_update :: "datetime \<Rightarrow> 'a HomeAssistantManager \<Rightarrow> 'a HomeAssistantManager outcome" where
  \<comment> \<open>The \<open>return\<close> inside the \<open>try\<close> block leaves the method at once; the assignment
      after the handler runs on the other two paths.\<close>
  "async_update event_time h =
     (if \<not> is_initialized h then
        Inr (h\<lparr>ha_logs := ha_logs h @ [Info_not_initialized event_time]\<rparr>)
      else if is_updating h then
        Inr (h\<lparr>ha_logs := ha_logs h @ [Debug_skip_updating event_time]\<rparr>)
      else
        (let h = h\<lparr>ha_logs := ha_logs h @ [Debug_updating event_time]\<rparr>;
             h = h\<lparr>is_updating := True\<rparr>;
             h = (case (case call_hook Async_update_data_providers h of
                          Inl x \<Rightarrow> Inl x
                        | Inr h \<Rightarrow> update h) of
                    Inl (ex, h) \<Rightarrow> h\<lparr>ha_logs := ha_logs h @ [Error_failed_to_async_update ex]\<rparr>
                  | Inr h \<Rightarrow> h)
         in Inr (h\<lparr>is_updating := False\<rparr>)))"

definition action_key :: "string \<Rightarrow> string \<Rightarrow> string" where
  \<comment> \<open>\<open>f"{entity_id}:{action_name}"\<close>\<close>
  "action_key entity_id action_name = entity_id @ '':'' @ action_name"

definition set_action :: "string \<Rightarrow> string \<Rightarrow> 'a \<Rightarrow> 'a HomeAssistantManager \<Rightarrow> 'a HomeAssistantManager" where
  "set_action entity_id action_name action h =
     h\<lparr>actions := (actions h)(action_key entity_id action_name \<mapsto> action)\<rparr>"

definition get_action :: "'a HomeAssistantManager \<Rightarrow> string \<Rightarrow> string \<Rightarrow> 'a option" where
  "get_action h entity_id action_name = actions h (action_key entity_id action_name)"

section \<open>Reading results\<close>

text \<open>The record under a key after a call of \<open>set_entity\<close>; none when the call raised.\<close>

definition stored_after :: "error + EntityManager \<Rightarrow> string \<Rightarrow> EntityData option" where
  "stored_after r unique_id = (case r of Inl e \<Rightarrow> None | Inr m \<Rightarrow> get m unique_id)"


section \<open>Example managers\<close>

text \<open>
  Concrete records and managers on which the theorems below are evaluated: a camera and a
  select entity, a camera domain whose initializer and \<open>async_add_devices\<close> succeed, and
  a host with an empty entity registry.
\<close>

definition camera_description :: entity_description where
  "camera_description = \<lparr>key = ''cam1'', name = ''Camera 1''\<rparr>"

definition no_registry :: EntityRegistry where
  "no_registry = \<lparr>entity_ids = Map.empty, registry_entities = Map.empty\<rparr>"

definition camera_record :: "EntityStatus \<Rightarrow> EntityData" where
  "camera_record st =
     \<lparr>entry_id = ''e1'', entity_description = camera_description, state = Some (PyStr ''on''),
      attributes = Map.empty, details = Some Map.empty, device_name = Some ''dev'',
      status = st, disabled = False, domain = Some ''camera''\<rparr>"

definition manager_with :: "(string \<times> EntityData) list \<Rightarrow> EntityManager" where
  "manager_with es = (EntityManager_init no_registry Map.empty)\<lparr>entities := es\<rparr>"

definition example_ha :: "nat HomeAssistantManager" where
  "example_ha = HomeAssistantManager_init no_registry Map.empty 60 (Some 25)"

definition select_description :: entity_description where
  "select_description = \<lparr>key = ''sel1'', name = ''Mode''\<rparr>"

definition select_record :: "EntityStatus \<Rightarrow> EntityData" where
  "select_record st =
     \<lparr>entry_id = ''e1'', entity_description = select_description, state = Some (PyStr ''auto''),
      attributes = Map.empty, details = Some Map.empty, device_name = Some ''dev'',
      status = st, disabled = False, domain = Some ''select''\<rparr>"

definition camera_domain :: DomainData where
  "camera_domain =
     \<lparr>domain_name = ''camera'',
      initializer = (\<lambda>entity. Inr \<lparr>component_name = data_name entity,
                                     component_unique_id = data_id entity,
                                     component_entity_id = None\<rparr>),
      async_add_devices = (\<lambda>cs. None)\<rparr>"

definition two_deleted :: EntityManager where
  "two_deleted = manager_with [(''cam1'', camera_record DELETED), (''sel1'', select_record DELETED)]"



section \<open>Storing a record\<close>

lemmas ex_defs = manager_with_def camera_record_def camera_description_def no_registry_def
  EntityManager_init_def get_def stored_after_def

lemmas run_defs = ex_defs select_record_def select_description_def camera_domain_def
  add_components_try_def async_add_components_def add_component_def
  handle_disabled_entity_def handle_restored_entity_def async_get_entity_id_def async_get_def
  delete_component_def async_delete_components_def update_try_def em_async_update_def
  data_id_def data_name_def Let_def

lemma compare_data_fresh:
  "\<exists>r. compare_data (EntityData_init i d\<lparr>status := CREATED, domain := Some dm\<rparr>) s a n None None = Inr r"
  by (simp add: compare_data_def get_attributes_json_def Let_def)

lemma compare_data_raises:
  "compare_data e s a n dd det = Inl err \<longleftrightarrow> (details e = None \<and> det \<noteq> None \<and> err = TypeError)"
  by (auto simp: compare_data_def get_attributes_json_def Let_def split: option.splits if_splits)

lemma compare_data_modified_Some:
  "compare_data e s a n (Some d) det = Inr (b, lg) \<Longrightarrow>
     b = (state e \<noteq> Some s \<or> attributes e \<noteq> a \<or> device_name e \<noteq> Some n
          \<or> entity_description e \<noteq> d \<or> (det \<noteq> None \<and> details e \<noteq> det))"
  by (auto simp: compare_data_def get_attributes_json_def Let_def split: option.splits if_splits)

lemma compare_data_returns:
  assumes "details e = None \<longrightarrow> det = None"
  shows "\<exists>b lg. compare_data e s a n dd det = Inr (b, lg)"
proof (cases "compare_data e s a n dd det")
  case (Inl err)
  then have "details e = None \<and> det \<noteq> None" by (simp add: compare_data_raises)
  with assms show ?thesis by simp
next
  case (Inr r)
  then show ?thesis by (cases r) simp
qed

lemma set_entity_new:
  assumes "get m (key d) = None"
  shows "\<exists>m'. set_entity dm i s a n (Some d) det ds m = Inr m' \<and>
     entities m' =
       (if flagged ds then entities m
        else AList.update (key d)
               (EntityData_init i d\<lparr>status := CREATED, domain := Some dm, state := Some s,
                  attributes := a, device_name := Some n, details := det\<rparr>) (entities m))"
proof -
  obtain b lg where r: "compare_data (EntityData_init i d\<lparr>status := CREATED, domain := Some dm\<rparr>) s a n None None = Inr (b, lg)"
    using compare_data_fresh by (metis surj_pair)
  show ?thesis
    using assms r
    by (simp add: set_entity_def Let_def EntityData_init_def)
qed

lemma set_entity_existing:
  assumes "get m (key d) = Some e" and "compare_data e s a n (Some d) det = Inr (b, lg)"
  shows "\<exists>m'. set_entity dm i s a n (Some d) det ds m = Inr m' \<and>
     entities m' =
       AList.update (key d)
         (if b then e\<lparr>state := Some s, attributes := a, device_name := Some n, details := det,
                 status := if flagged ds then DELETED else UPDATED\<rparr>
          else if status e = CREATED then e\<lparr>state := Some s, attributes := a, device_name := Some n, details := det\<rparr>
          else if status e = UPDATED
            then e\<lparr>state := Some s, attributes := a, device_name := Some n, details := det,
                 status := if flagged ds then DELETED else UPDATED\<rparr>
          else e\<lparr>status := if flagged ds then DELETED else status e\<rparr>)
         (entities m)"
proof (cases "flagged ds")
  case True
  show ?thesis using assms True
    by (cases e; cases b; cases "status e") (simp_all add: set_entity_def Let_def)
next
  case False
  show ?thesis using assms False
    by (cases e; cases b; cases "status e") (simp_all add: set_entity_def Let_def)
qed

lemma map_of_update_same: "map_of (AList.update k v al) k = Some v"
  by (simp add: update_conv')

lemma map_of_update_other: "k' \<noteq> k \<Longrightarrow> map_of (AList.update k v al) k' = map_of al k'"
  by (simp add: update_conv')

lemma set_entity_Inr_compare:
  assumes "set_entity dm i s a n (Some d) det ds m = Inr m'" and "get m (key d) = Some e"
  shows "\<exists>b lg. compare_data e s a n (Some d) det = Inr (b, lg)"
proof (cases "compare_data e s a n (Some d) det")
  case (Inl err)
  with assms show ?thesis by (simp add: set_entity_def)
next
  case (Inr r)
  then show ?thesis by (cases r) simp
qed

lemma stored_under_key:
  assumes es: "entities m' = AList.update k0 v (entities m)"
    and id: "(\<forall>k e. get m k = Some e \<longrightarrow> data_id e = k) \<longrightarrow> data_id v = k0"
  shows "(\<exists>e. get m' k0 = Some e \<and> entities m' = AList.update k0 e (entities m))
     \<and> (\<forall>k. k \<noteq> k0 \<longrightarrow> get m' k = get m k)
     \<and> ((\<forall>k e. get m k = Some e \<longrightarrow> data_id e = k) \<longrightarrow> (\<forall>k e. get m' k = Some e \<longrightarrow> data_id e = k))"
proof (intro conjI)
  have "get m' k0 = Some v" unfolding get_def es by (rule map_of_update_same)
  with es show "\<exists>e. get m' k0 = Some e \<and> entities m' = AList.update k0 e (entities m)"
    by (intro exI [of _ v] conjI)
  show "\<forall>k. k \<noteq> k0 \<longrightarrow> get m' k = get m k"
    unfolding get_def es by (simp add: map_of_update_other)
  show "(\<forall>k e. get m k = Some e \<longrightarrow> data_id e = k) \<longrightarrow> (\<forall>k e. get m' k = Some e \<longrightarrow> data_id e = k)"
  proof (intro impI allI)
    fix k e
    assume inv: "\<forall>k e. get m k = Some e \<longrightarrow> data_id e = k" and g: "get m' k = Some e"
    show "data_id e = k"
    proof (cases "k = k0")
      case True
      with g have "e = v" unfolding get_def es by (simp add: map_of_update_same)
      with id inv True show ?thesis by simp
    next
      case False
      with g have "get m k = Some e" unfolding get_def es by (simp add: map_of_update_other)
      with inv show ?thesis by simp
    qed
  qed
qed

text \<open>
  C1, as the code has it. The call returns unless the stored record has no details
  (\<open>None\<close>) and new details are given. A record that was not in the mapping is stored with
  status CREATED, or not stored at all when the destructors contain \<open>True\<close>. For a record
  in the mapping the comparison looks at the state, the attributes, the device name, the
  entity description and, only when new details are given, the details: if one of them
  differs the status becomes UPDATED, and DELETED when the destructors contain \<open>True\<close>; if
  none differs the status stays as it was, except that the destructors turn every status
  other than CREATED into DELETED.
\<close>

theorem set_entity_status:
  assumes "\<forall>e. get m (key d) = Some e \<longrightarrow> details e = None \<longrightarrow> det = None"
  shows "\<exists>m'. set_entity dm i s a n (Some d) det ds m = Inr m' \<and>
     (case get m (key d) of
        None \<Rightarrow> map_option status (get m' (key d)) = (if flagged ds then None else Some CREATED)
      | Some e \<Rightarrow>
          map_option status (get m' (key d)) =
            Some (if state e \<noteq> Some s \<or> attributes e \<noteq> a \<or> device_name e \<noteq> Some n
                     \<or> entity_description e \<noteq> d \<or> (det \<noteq> None \<and> details e \<noteq> det)
                  then (if flagged ds then DELETED else UPDATED)
                  else if flagged ds \<and> status e \<noteq> CREATED then DELETED else status e))"
proof (cases "get m (key d)")
  case None
  from set_entity_new [OF None, of dm i s a n det ds]
  obtain m' where m': "set_entity dm i s a n (Some d) det ds m = Inr m'"
    and es: "entities m' =
       (if flagged ds then entities m
        else AList.update (key d)
               (EntityData_init i d\<lparr>status := CREATED, domain := Some dm, state := Some s,
                  attributes := a, device_name := Some n, details := det\<rparr>) (entities m))"
    by blast
  have "map_option status (get m' (key d)) = (if flagged ds then None else Some CREATED)"
    using None es by (simp add: get_def map_of_update_same)
  with m' None show ?thesis by simp
next
  case (Some e)
  with assms have "details e = None \<longrightarrow> det = None" by simp
  from compare_data_returns [OF this]
  obtain b lg where c0: "compare_data e s a n (Some d) det = Inr (b, lg)"
    by iprover
  define differs where "differs = (state e \<noteq> Some s \<or> attributes e \<noteq> a \<or> device_name e \<noteq> Some n
                     \<or> entity_description e \<noteq> d \<or> (det \<noteq> None \<and> details e \<noteq> det))"
  have "b = differs"
    unfolding differs_def by (rule compare_data_modified_Some [OF c0])
  with c0 have c: "compare_data e s a n (Some d) det = Inr (differs, lg)" by simp
  define e' where "e' = (if differs then e\<lparr>state := Some s, attributes := a, device_name := Some n, details := det,
                 status := if flagged ds then DELETED else UPDATED\<rparr>
          else if status e = CREATED then e\<lparr>state := Some s, attributes := a, device_name := Some n, details := det\<rparr>
          else if status e = UPDATED
            then e\<lparr>state := Some s, attributes := a, device_name := Some n, details := det,
                 status := if flagged ds then DELETED else UPDATED\<rparr>
          else e\<lparr>status := if flagged ds then DELETED else status e\<rparr>)"
  have "\<exists>m'. set_entity dm i s a n (Some d) det ds m = Inr m' \<and>
          entities m' = AList.update (key d) e' (entities m)"
    unfolding e'_def by (rule set_entity_existing [OF Some c])
  then obtain m' where m': "set_entity dm i s a n (Some d) det ds m = Inr m'"
    and es: "entities m' = AList.update (key d) e' (entities m)"
    by iprover
  have st': "status e' = (if differs then (if flagged ds then DELETED else UPDATED)
                  else if flagged ds \<and> status e \<noteq> CREATED then DELETED else status e)"
    by (cases "status e") (simp_all add: e'_def)
  have st: "map_option status (get m' (key d)) =
            Some (if differs then (if flagged ds then DELETED else UPDATED)
                  else if flagged ds \<and> status e \<noteq> CREATED then DELETED else status e)"
    unfolding get_def es map_of_update_same using st' by simp
  have "case get m (key d) of
        None \<Rightarrow> map_option status (get m' (key d)) = (if flagged ds then None else Some CREATED)
      | Some e \<Rightarrow>
          map_option status (get m' (key d)) =
            Some (if state e \<noteq> Some s \<or> attributes e \<noteq> a \<or> device_name e \<noteq> Some n
                     \<or> entity_description e \<noteq> d \<or> (det \<noteq> None \<and> details e \<noteq> det)
                  then (if flagged ds then DELETED else UPDATED)
                  else if flagged ds \<and> status e \<noteq> CREATED then DELETED else status e)"
    unfolding Some option.case differs_def [symmetric] by (rule st)
  then show ?thesis by (intro exI [of _ m'] conjI m')
qed

text \<open>
  The claim C1 as it is written fails when the destructors contain \<open>True\<close>: the record is
  in the mapping with status READY, no field differs, and the call leaves it DELETED.
\<close>

theorem set_entity_status_counterexample:
  "compare_data (camera_record READY) (PyStr ''on'') Map.empty ''dev''
       (Some camera_description) None = Inr (False, [])
   \<and> map_option status (get (manager_with [(''cam1'', camera_record READY)]) ''cam1'') = Some READY
   \<and> map_option status
        (stored_after
           (set_entity ''camera'' ''e1'' (PyStr ''on'') Map.empty ''dev''
              (Some camera_description) None (Some [True])
              (manager_with [(''cam1'', camera_record READY)]))
           ''cam1'') = Some DELETED"
  by (simp add: ex_defs compare_data_def set_entity_def flagged_def Let_def)

theorem set_entity_status_witness:
  "get (manager_with [(''cam1'', camera_record READY)]) (key camera_description)
     = Some (camera_record READY)
   \<and> details (camera_record READY) \<noteq> None
   \<and> (\<exists>m'. set_entity ''camera'' ''e1'' (PyStr ''off'') Map.empty ''dev''
              (Some camera_description) None None
              (manager_with [(''cam1'', camera_record READY)]) = Inr m'
          \<and> map_option status (get m' ''cam1'') = Some UPDATED)"
  using set_entity_status [of "manager_with [(''cam1'', camera_record READY)]" camera_description
      None "''camera''" "''e1''" "PyStr ''off''" Map.empty "''dev''" None]
  by (simp add: manager_with_def camera_record_def camera_description_def no_registry_def
      EntityManager_init_def get_def flagged_def)

text \<open>
  C5: a call of \<open>set_entity\<close> with description \<open>d\<close> that returns and does not drop the
  record (it is not both new and flagged by a destructor) stores a record under \<open>key d\<close>,
  where \<open>get\<close> finds it; the records under the other keys stay where they were; and if
  every record was stored under the key of its own description (\<open>entity.id\<close>), that is
  still so after the call.
\<close>

theorem set_entity_then_get:
  assumes "set_entity dm i s a n (Some d) det ds m = Inr m'"
    and "\<not> (get m (key d) = None \<and> flagged ds)"
  shows "(\<exists>e. get m' (key d) = Some e \<and> entities m' = AList.update (key d) e (entities m))
     \<and> (\<forall>k. k \<noteq> key d \<longrightarrow> get m' k = get m k)
     \<and> ((\<forall>k e. get m k = Some e \<longrightarrow> data_id e = k) \<longrightarrow> (\<forall>k e. get m' k = Some e \<longrightarrow> data_id e = k))"
proof (cases "get m (key d)")
  case None
  with assms have nf: "\<not> flagged ds" by simp
  from set_entity_new [OF None, of dm i s a n det ds] assms(1) nf
  have es: "entities m' = AList.update (key d)
               (EntityData_init i d\<lparr>status := CREATED, domain := Some dm, state := Some s,
                  attributes := a, device_name := Some n, details := det\<rparr>) (entities m)"
    by auto
  have id: "data_id (EntityData_init i d\<lparr>status := CREATED, domain := Some dm, state := Some s,
                  attributes := a, device_name := Some n, details := det\<rparr>) = key d"
    by (simp add: data_id_def EntityData_init_def)
  show ?thesis
    by (rule stored_under_key [OF es]) (simp add: id)
next
  case (Some e)
  from set_entity_Inr_compare [OF assms(1) Some]
  obtain b lg where c: "compare_data e s a n (Some d) det = Inr (b, lg)"
    by iprover
  define e' where "e' = (if b then e\<lparr>state := Some s, attributes := a, device_name := Some n, details := det,
                 status := if flagged ds then DELETED else UPDATED\<rparr>
          else if status e = CREATED then e\<lparr>state := Some s, attributes := a, device_name := Some n, details := det\<rparr>
          else if status e = UPDATED
            then e\<lparr>state := Some s, attributes := a, device_name := Some n, details := det,
                 status := if flagged ds then DELETED else UPDATED\<rparr>
          else e\<lparr>status := if flagged ds then DELETED else status e\<rparr>)"
  have "\<exists>m'. set_entity dm i s a n (Some d) det ds m = Inr m' \<and>
          entities m' = AList.update (key d) e' (entities m)"
    unfolding e'_def by (rule set_entity_existing [OF Some c])
  with assms(1) have es: "entities m' = AList.update (key d) e' (entities m)"
    by simp
  have id: "data_id e' = data_id e"
    by (simp add: e'_def data_id_def)
  have "(\<forall>k e. get m k = Some e \<longrightarrow> data_id e = k) \<longrightarrow> data_id e' = key d"
    using Some id by simp
  then show ?thesis
    by (rule stored_under_key [OF es])
qed

theorem set_entity_then_get_witness:
  "set_entity ''camera'' ''e1'' (PyStr ''on'') Map.empty ''dev''
       (Some camera_description) (Some Map.empty) None (manager_with [])
     = Inr ((manager_with [])
            \<lparr>entities := [(''cam1'', camera_record CREATED)],
             logs := [Debug_compare ''Camera 1'' (Some ''camera'')
                        [State_msg None (PyStr ''on''), Device_name_msg None ''dev''],
                      Info_entity ''Camera 1'' (Some ''camera'') CREATED (Some (PyStr ''on''))]\<rparr>)
   \<and> get (manager_with []) (key camera_description) = None
   \<and> get ((manager_with [])
            \<lparr>entities := [(''cam1'', camera_record CREATED)],
             logs := [Debug_compare ''Camera 1'' (Some ''camera'')
                        [State_msg None (PyStr ''on''), Device_name_msg None ''dev''],
                      Info_entity ''Camera 1'' (Some ''camera'') CREATED (Some (PyStr ''on''))]\<rparr>)
         ''cam1'' = Some (camera_record CREATED)"
proof -
  have run: "set_entity ''camera'' ''e1'' (PyStr ''on'') Map.empty ''dev''
       (Some camera_description) (Some Map.empty) None (manager_with [])
     = Inr ((manager_with [])
            \<lparr>entities := [(''cam1'', camera_record CREATED)],
             logs := [Debug_compare ''Camera 1'' (Some ''camera'')
                        [State_msg None (PyStr ''on''), Device_name_msg None ''dev''],
                      Info_entity ''Camera 1'' (Some ''camera'') CREATED (Some (PyStr ''on''))]\<rparr>)"
    by (simp add: ex_defs compare_data_def set_entity_def flagged_def Let_def
        EntityData_init_def data_name_def get_attributes_json_def)
  have new: "\<not> (get (manager_with []) (key camera_description) = None \<and> flagged None)"
    by (simp add: flagged_def)
  show ?thesis
    using set_entity_then_get [OF run new] run
    by (simp add: ex_defs)
qed

text \<open>
  C8: when no record exists under the key of the entity description and the destructors
  contain \<open>True\<close>, \<open>set_entity\<close> returns and leaves the entities mapping as it was.
\<close>

theorem set_entity_flagged_new_keeps_entities:
  assumes "get m (key d) = None" and "True \<in> set ds"
  shows "\<exists>m'. set_entity dm i s a n (Some d) det (Some ds) m = Inr m' \<and> entities m' = entities m"
proof -
  obtain r where r: "compare_data (EntityData_init i d\<lparr>status := CREATED, domain := Some dm\<rparr>) s a n None None = Inr r"
    using compare_data_fresh by blast
  show ?thesis
    using assms r
    by (cases r) (simp add: set_entity_def flagged_def Let_def)
qed

theorem set_entity_flagged_new_keeps_entities_witness:
  "get (manager_with []) (key camera_description) = None \<and> True \<in> set [False, True]
   \<and> (\<exists>m'. set_entity ''camera'' ''e1'' (PyStr ''on'') Map.empty ''dev''
              (Some camera_description) None (Some [False, True]) (manager_with []) = Inr m'
          \<and> entities m' = [])"
  using set_entity_flagged_new_keeps_entities [of "manager_with []" camera_description
      "[False, True]" "''camera''" "''e1''" "PyStr ''on''" Map.empty "''dev''" None]
  by (simp add: manager_with_def camera_description_def no_registry_def
      EntityManager_init_def get_def)

text \<open>
  C9: for a record in the mapping, the new state, attributes, device name and details are
  written exactly when, after the comparison, its status is CREATED or UPDATED (a field
  differed, or the status was one of the two already); otherwise the four fields of the
  stored record are what they were.
\<close>

theorem set_entity_writes_fields:
  assumes "get m (key d) = Some e"
    and "compare_data e s a n (Some d) det = Inr (b, lg)"
  shows "\<exists>m' e'. set_entity dm i s a n (Some d) det ds m = Inr m' \<and> get m' (key d) = Some e' \<and>
     (if b \<or> status e = CREATED \<or> status e = UPDATED
      then state e' = Some s \<and> attributes e' = a \<and> device_name e' = Some n \<and> details e' = det
      else state e' = state e \<and> attributes e' = attributes e \<and> device_name e' = device_name e
           \<and> details e' = details e)"
proof -
  define e' where "e' = (if b then e\<lparr>state := Some s, attributes := a, device_name := Some n, details := det,
                 status := if flagged ds then DELETED else UPDATED\<rparr>
          else if status e = CREATED then e\<lparr>state := Some s, attributes := a, device_name := Some n, details := det\<rparr>
          else if status e = UPDATED
            then e\<lparr>state := Some s, attributes := a, device_name := Some n, details := det,
                 status := if flagged ds then DELETED else UPDATED\<rparr>
          else e\<lparr>status := if flagged ds then DELETED else status e\<rparr>)"
  have "\<exists>m'. set_entity dm i s a n (Some d) det ds m = Inr m' \<and>
          entities m' = AList.update (key d) e' (entities m)"
    unfolding e'_def by (rule set_entity_existing [OF assms])
  then obtain m' where m': "set_entity dm i s a n (Some d) det ds m = Inr m'"
    and es: "entities m' = AList.update (key d) e' (entities m)"
    by iprover
  have g: "get m' (key d) = Some e'"
    unfolding get_def es by (rule map_of_update_same)
  have "if b \<or> status e = CREATED \<or> status e = UPDATED
      then state e' = Some s \<and> attributes e' = a \<and> device_name e' = Some n \<and> details e' = det
      else state e' = state e \<and> attributes e' = attributes e \<and> device_name e' = device_name e
           \<and> details e' = details e"
    by (simp add: e'_def)
  then show ?thesis by (intro exI [of _ m'] exI [of _ e'] conjI m' g)
qed

theorem set_entity_writes_fields_witness:
  "get (manager_with [(''cam1'', camera_record READY)]) (key camera_description)
     = Some (camera_record READY)
   \<and> compare_data (camera_record READY) (PyStr ''on'') Map.empty ''dev''
       (Some camera_description) None = Inr (False, [])
   \<and> (\<exists>m' e'. set_entity ''camera'' ''e1'' (PyStr ''on'') Map.empty ''dev''
              (Some camera_description) None (Some [True])
              (manager_with [(''cam1'', camera_record READY)]) = Inr m'
          \<and> get m' ''cam1'' = Some e' \<and> state e' = Some (PyStr ''on'')
          \<and> attributes e' = Map.empty \<and> device_name e' = Some ''dev''
          \<and> details e' = Some Map.empty)"
proof -
  have g: "get (manager_with [(''cam1'', camera_record READY)]) (key camera_description)
     = Some (camera_record READY)"
    by (simp add: ex_defs)
  have c: "compare_data (camera_record READY) (PyStr ''on'') Map.empty ''dev''
       (Some camera_description) None = Inr (False, [])"
    by (simp add: ex_defs compare_data_def)
  show ?thesis
    using set_entity_writes_fields [OF g c, of "''camera''" "''e1''" "Some [True]"] g c
    by (simp add: camera_record_def camera_description_def)
qed

section \<open>The add phase\<close>
























section \<open>The delete phase\<close>

text \<open>
  The loop of \<open>_async_delete_components\<close> deletes from the dictionary it iterates over.
  A step that deletes makes the dictionary smaller, so the iterator raises at the next
  step: the loop returns only when it has deleted nothing, and the delete phase raises
  whenever the mapping holds a record with status DELETED.
\<close>

lemma length_delete_present:
  "k \<in> fst ` set al \<Longrightarrow> length (AList.delete k al) < length al"
  by (auto simp: AList.delete_eq intro!: length_filter_less)

lemma delete_component_cases:
  assumes "delete_component u d m = Inr (d', m')"
  shows "(d' = d \<and> m' = m
          \<and> (\<forall>e. get m u = Some e \<longrightarrow> status e \<noteq> DELETED))
       \<or> length (entities m') < length (entities m)"
proof (cases "get m u")
  case None
  with assms show ?thesis by (simp add: delete_component_def)
next
  case (Some e)
  show ?thesis
  proof (cases "status e = DELETED")
    case False
    with assms Some show ?thesis by (simp add: delete_component_def)
  next
    case True
    have "length (AList.delete (data_id e) (entities m)) < length (entities m)"
      if "data_id e \<in> set (map fst (entities m))"
      using that by (intro length_delete_present) simp
    with assms Some True have "length (entities m') < length (entities m)"
      by (auto simp: delete_component_def Let_def split: option.splits if_splits)
    then show ?thesis by simp
  qed
qed

lemma delete_loop_size_changed:
  "length (entities m) \<noteq> used \<Longrightarrow> delete_loop used ks d m = Inl (RuntimeError, m)"
  by (cases ks) simp_all

lemma delete_loop_returns:
  assumes "delete_loop used ks d m = Inr (d', m')"
  shows "d' = d \<and> m' = m \<and> (\<forall>k\<in>set ks. \<forall>e. get m k = Some e \<longrightarrow> status e \<noteq> DELETED)"
  using assms
proof (induction ks arbitrary: d m)
  case Nil
  then show ?case by (simp split: if_splits)
next
  case (Cons u ks)
  have len: "length (entities m) = used"
  proof (rule ccontr)
    assume "length (entities m) \<noteq> used"
    then have "delete_loop used (u # ks) d m = Inl (RuntimeError, m)"
      by (rule delete_loop_size_changed)
    with Cons.prems show False by simp
  qed
  show ?case
  proof (cases "delete_component u d m")
    case (Inl x)
    with Cons.prems len show ?thesis by simp
  next
    case (Inr y)
    obtain d1 m1 where y: "y = (d1, m1)" by (cases y)
    have rest: "delete_loop used ks d1 m1 = Inr (d', m')"
      using Cons.prems len Inr y by simp
    have "length (entities m1) = used"
    proof (rule ccontr)
      assume "length (entities m1) \<noteq> used"
      then have "delete_loop used ks d1 m1 = Inl (RuntimeError, m1)"
        by (rule delete_loop_size_changed)
      with rest show False by simp
    qed
    with len delete_component_cases [of u d m d1 m1] Inr y
    have same: "d1 = d" "m1 = m" and u: "\<forall>e. get m u = Some e \<longrightarrow> status e \<noteq> DELETED"
      by auto
    from Cons.IH [OF rest] same u show ?thesis by simp
  qed
qed

lemma delete_phase_raises:
  assumes "get m k = Some e" and "status e = DELETED"
  shows "\<exists>ex. raised (async_delete_components m) = Some ex"
proof (cases "delete_loop (length (entities m)) (map fst (entities m)) 0 m")
  case (Inl x)
  then show ?thesis by (cases x) (simp add: async_delete_components_def)
next
  case (Inr y)
  obtain d' m' where "y = (d', m')" by (cases y)
  with Inr have "\<forall>k\<in>set (map fst (entities m)). \<forall>e. get m k = Some e \<longrightarrow> status e \<noteq> DELETED"
    using delete_loop_returns by blast
  moreover have "k \<in> set (map fst (entities m))"
    using assms(1) map_of_SomeD [of "entities m" k e] unfolding get_def by force
  ultimately show ?thesis using assms by blast
qed

text \<open>
  C2 on a mapping with two DELETED records: the delete phase removes the first of them,
  the dictionary iterator then raises RuntimeError because the dictionary changed size,
  \<open>_async_update\<close> catches and logs it, and the second record is still in the mapping
  with status DELETED.
\<close>

theorem delete_phase_stops_after_first:
  "map_option status (get two_deleted ''cam1'') = Some DELETED
   \<and> map_option status (get two_deleted ''sel1'') = Some DELETED
   \<and> raised (async_delete_components two_deleted) = Some RuntimeError
   \<and> em_async_update two_deleted =
        Inr (two_deleted\<lparr>entities := [(''sel1'', select_record DELETED)],
               logs := [Debug_starting_to_update, Error_failed_to_update RuntimeError]\<rparr>)
   \<and> map_option status (get (final (em_async_update two_deleted)) ''sel1'') = Some DELETED"
  by (simp add: two_deleted_def run_defs)

section \<open>The reconciliation pass\<close>

text \<open>
  C3: \<open>_async_add_components\<close> and \<open>_async_update\<close> return normally whatever their
  \<open>try\<close> blocks do: an exception raised there is caught and ends up as the last record
  of the log.
\<close>

theorem reconciliation_returns:
  "(\<exists>m'. async_add_components m = Inr m' \<and>
      logs m' = logs (final (add_components_try m))
        @ (case raised (add_components_try m) of
             None \<Rightarrow> [] | Some ex \<Rightarrow> [Error_failed_to_add_component ex]))
   \<and> (\<exists>m'. em_async_update m = Inr m' \<and>
      logs m' = logs (final (update_try (m\<lparr>logs := logs m @ [Debug_starting_to_update]\<rparr>)))
        @ (case raised (update_try (m\<lparr>logs := logs m @ [Debug_starting_to_update]\<rparr>)) of
             None \<Rightarrow> [] | Some ex \<Rightarrow> [Error_failed_to_update ex]))"
proof
  show "\<exists>m'. async_add_components m = Inr m' \<and>
      logs m' = logs (final (add_components_try m))
        @ (case raised (add_components_try m) of
             None \<Rightarrow> [] | Some ex \<Rightarrow> [Error_failed_to_add_component ex])"
    by (cases "add_components_try m") (auto simp: async_add_components_def)
  show "\<exists>m'. em_async_update m = Inr m' \<and>
      logs m' = logs (final (update_try (m\<lparr>logs := logs m @ [Debug_starting_to_update]\<rparr>)))
        @ (case raised (update_try (m\<lparr>logs := logs m @ [Debug_starting_to_update]\<rparr>)) of
             None \<Rightarrow> [] | Some ex \<Rightarrow> [Error_failed_to_update ex])"
    by (cases "update_try (m\<lparr>logs := logs m @ [Debug_starting_to_update]\<rparr>)")
       (auto simp: em_async_update_def)
qed

theorem reconciliation_returns_witness:
  "raised (update_try (two_deleted\<lparr>logs := logs two_deleted @ [Debug_starting_to_update]\<rparr>))
     = Some RuntimeError
   \<and> raised (em_async_update two_deleted) = None
   \<and> logs (final (em_async_update two_deleted))
       = [Debug_starting_to_update, Error_failed_to_update RuntimeError]"
proof -
  have "raised (update_try (two_deleted\<lparr>logs := logs two_deleted @ [Debug_starting_to_update]\<rparr>))
     = Some RuntimeError
    \<and> logs (final (update_try (two_deleted\<lparr>logs := logs two_deleted @ [Debug_starting_to_update]\<rparr>)))
     = [Debug_starting_to_update]"
    by (simp add: two_deleted_def run_defs)
  then show ?thesis
    using reconciliation_returns [of two_deleted] by auto
qed

section \<open>The periodic update\<close>

text \<open>
  C6: called without a config entry, \<open>async_update_entry\<close> registers the update callback
  at the scan interval and, exactly when the manager holds a heartbeat interval, the
  heartbeat callback at that interval; it appends the callables that remove them to the
  list of track-time handlers, in this order. This holds whether the call then returns or
  raises. The two intervals are the ones given to the constructor.
\<close>

theorem async_update_entry_registers:
  "time_listeners (final (async_update_entry None h))
     = time_listeners h @ (Update_entities, scan_interval h)
         # (case heartbeat_interval h of None \<Rightarrow> [] | Some heartbeat \<Rightarrow> [(Send_heartbeat, heartbeat)])
   \<and> async_track_time_handlers (final (async_update_entry None h))
     = async_track_time_handlers h @ Remove_listener Update_entities (scan_interval h)
         # (case heartbeat_interval h of None \<Rightarrow> []
            | Some heartbeat \<Rightarrow> [Remove_listener Send_heartbeat heartbeat])
   \<and> scan_interval (HomeAssistantManager_init reg sts scan hb :: 'a HomeAssistantManager) = scan
   \<and> heartbeat_interval (HomeAssistantManager_init reg sts scan hb :: 'a HomeAssistantManager) = hb"
  by (cases "heartbeat_interval h"; cases "entry h")
     (simp_all add: async_update_entry_def async_track_time_interval_def call_hook_def
        HomeAssistantManager_init_def Let_def)

theorem async_update_entry_registers_witness:
  "time_listeners (final (async_update_entry None example_ha))
     = [(Update_entities, 60), (Send_heartbeat, 25)]
   \<and> async_track_time_handlers (final (async_update_entry None example_ha))
     = [Remove_listener Update_entities 60, Remove_listener Send_heartbeat 25]
   \<and> time_listeners (final (async_update_entry None (example_ha\<lparr>heartbeat_interval := None\<rparr>)))
     = [(Update_entities, 60)]
   \<and> async_track_time_handlers
       (final (async_update_entry None (example_ha\<lparr>heartbeat_interval := None\<rparr>)))
     = [Remove_listener Update_entities 60]"
  using async_update_entry_registers [of example_ha]
    async_update_entry_registers [of "example_ha\<lparr>heartbeat_interval := None\<rparr>"]
  by (simp add: example_ha_def HomeAssistantManager_init_def)

text \<open>
  C7: while the manager is not initialized, \<open>async_update\<close> only writes a log record: no
  overridable method is called, no task is handed to the host, and the entity manager and
  the two update flags are what they were.
\<close>

theorem async_update_not_initialized:
  assumes "\<not> is_initialized h"
  shows "async_update event_time h = Inr (h\<lparr>ha_logs := ha_logs h @ [Info_not_initialized event_time]\<rparr>)
     \<and> hook_calls (final (async_update event_time h)) = hook_calls h
     \<and> tasks (final (async_update event_time h)) = tasks h
     \<and> entity_manager (final (async_update event_time h)) = entity_manager h
     \<and> is_updating (final (async_update event_time h)) = is_updating h
     \<and> update_lock (final (async_update event_time h)) = update_lock h"
  using assms by (simp add: async_update_def)

theorem async_update_not_initialized_witness:
  "\<not> is_initialized example_ha
   \<and> hook_calls (final (async_update 5 example_ha)) = []
   \<and> tasks (final (async_update 5 example_ha)) = []
   \<and> hook_calls (final (async_update 5 (example_ha\<lparr>is_initialized := True\<rparr>)))
        = [Async_update_data_providers, Load_devices, Load_entities]
   \<and> tasks (final (async_update 5 (example_ha\<lparr>is_initialized := True\<rparr>)))
        = [Entity_manager_async_update, Dispatch_all]"
proof -
  have n: "\<not> is_initialized example_ha"
    by (simp add: example_ha_def HomeAssistantManager_init_def)
  have "hook_calls (final (async_update 5 (example_ha\<lparr>is_initialized := True\<rparr>)))
        = [Async_update_data_providers, Load_devices, Load_entities]
   \<and> tasks (final (async_update 5 (example_ha\<lparr>is_initialized := True\<rparr>)))
        = [Entity_manager_async_update, Dispatch_all]"
    by (simp add: example_ha_def HomeAssistantManager_init_def async_update_def call_hook_def
        update_def em_update_def Let_def)
  with n async_update_not_initialized [OF n, of 5] show ?thesis
    by (simp add: example_ha_def HomeAssistantManager_init_def)
qed

text \<open>
  C10: \<open>get_action\<close> after \<open>set_action\<close> for the same entity id and action name returns
  the action, and \<open>set_action\<close> leaves the result of \<open>get_action\<close> for every pair with
  another composed key as it was.
\<close>

theorem get_action_after_set_action:
  "get_action (set_action entity_id action_name action h) entity_id action_name = Some action
   \<and> (action_key entity_id' action_name' \<noteq> action_key entity_id action_name \<longrightarrow>
        get_action (set_action entity_id action_name action h) entity_id' action_name'
          = get_action h entity_id' action_name')"
  by (simp add: get_action_def set_action_def)

theorem get_action_after_set_action_witness:
  "action_key ''cam2'' ''start'' \<noteq> action_key ''cam1'' ''start''
   \<and> get_action (set_action ''cam1'' ''start'' (7::nat) example_ha) ''cam1'' ''start'' = Some 7
   \<and> get_action (set_action ''cam1'' ''start'' (7::nat) example_ha) ''cam2'' ''start'' = None"
  using get_action_after_set_action [of "''cam1''" "''start''" "7::nat" example_ha "''cam2''" "''start''"]
  by (simp add: action_key_def get_action_def example_ha_def HomeAssistantManager_init_def)

end
